theory Spec2Isabelle
  imports Main "HOL-Library.Log_Nat"
begin

section \<open>GLIK backend: the risk engine and the scan stub of \<^verbatim>\<open>main.py\<close>\<close>

subsection \<open>Python values\<close>

text \<open>
  A Python \<^verbatim>\<open>float\<close> is an IEEE-754 binary64 value: a finite number, an infinity or
  NaN. Every finite double is a rational number, so the finite values are modelled by
  \<^typ>\<open>rat\<close>; the type has more finite values than there are doubles, and a theorem
  about all of them holds for all doubles. The two zeros are one value: the program
  only compares floats and converts them with \<^verbatim>\<open>int\<close>, and neither tells
  \<^verbatim>\<open>-0.0\<close> from \<^verbatim>\<open>0.0\<close>.
\<close>

datatype pyfloat = Finite rat | PosInf | NegInf | NaN

text \<open>
  Comparison of a float with an integer literal (\<^verbatim>\<open>x > 180\<close>, \<^verbatim>\<open>x < 70\<close>,
  \<^verbatim>\<open>x == 0\<close>). Python compares the exact values; every comparison with NaN is
  false. No comparison raises.
\<close>

fun float_gt :: "pyfloat \<Rightarrow> int \<Rightarrow> bool" where
  "float_gt (Finite q) n = (of_int n < q)"
| "float_gt PosInf n = True"
| "float_gt NegInf n = False"
| "float_gt NaN n = False"

fun float_lt :: "pyfloat \<Rightarrow> int \<Rightarrow> bool" where
  "float_lt (Finite q) n = (q < of_int n)"
| "float_lt PosInf n = False"
| "float_lt NegInf n = True"
| "float_lt NaN n = False"

fun float_eq :: "pyfloat \<Rightarrow> int \<Rightarrow> bool" where
  "float_eq (Finite q) n = (q = of_int n)"
| "float_eq PosInf n = False"
| "float_eq NegInf n = False"
| "float_eq NaN n = False"

text \<open>\<^verbatim>\<open>sep.join(xs)\<close> on a list of strings.\<close>

fun str_join :: "string \<Rightarrow> string list \<Rightarrow> string" where
  "str_join sep [] = []"
| "str_join sep [x] = x"
| "str_join sep (x # y # ys) = x @ sep @ str_join sep (y # ys)"

subsection \<open>Models\<close>

text \<open>
  \<^verbatim>\<open>class PatientData(BaseModel)\<close>: five float fields and the mood string. The
  validation layer converts every numeric field to a float and accepts NaN and the
  infinities.
\<close>

record PatientData =
  glucose :: pyfloat
  insulin_units :: pyfloat
  carbs_grams :: pyfloat
  activity_level :: pyfloat
  stress_level :: pyfloat
  mood :: string

subsection \<open>calculate\_risk\<close>

text \<open>
  Lines 42 to 70 of the source: the running \<^verbatim>\<open>score\<close> and the list
  \<^verbatim>\<open>reasons\<close>, threaded through the five \<^verbatim>\<open>if\<close> statements in the
  source's order. \<^verbatim>\<open>reasons.append(r)\<close> is \<open>reasons @ [r]\<close>.
\<close>

definition score_reasons :: "PatientData \<Rightarrow> int \<times> string list" where
  "score_reasons data =
    (let score = (0::int);
         reasons = ([]::string list);
         (score, reasons) =
           (if float_gt (glucose data) 180
              then (score + 60, reasons @ [''Current glucose is elevated.''])
            else if float_lt (glucose data) 70
              then (score + 50, reasons @ [''Risk of hypoglycemia.''])
            else (score + 10, reasons));
         (score, reasons) =
           (if float_gt (carbs_grams data) 60
              then (score + 20, reasons @ [''High carb intake detected.''])
            else (score, reasons));
         (score, reasons) =
           (if float_gt (stress_level data) 7
              then (score + 15, reasons @ [''High stress levels can spike glucose.''])
            else (score, reasons));
         (score, reasons) =
           (if float_lt (activity_level data) 3
              then (score + 10,
                    reasons @ [''Low activity increases persistence of high glucose.''])
            else (score, reasons));
         (score, reasons) =
           (if float_eq (insulin_units data) 0 \<and> float_gt (glucose data) 150
              then (score + 10, reasons @ [''Missed insulin correction?''])
            else (score, reasons))
     in (score, reasons))"

text \<open>
  Lines 72 to 84: the clamp \<^verbatim>\<open>min(max(score, 0), 100)\<close>, the label and the
  explanation (\<^verbatim>\<open>if reasons\<close> is true of a non-empty list).
\<close>

definition calculate_risk :: "PatientData \<Rightarrow> int \<times> string \<times> string" where
  "calculate_risk data =
    (let (score, reasons) = score_reasons data;
         score = min (max score 0) 100;
         label = (if score < 30 then ''Low''
                  else if score < 70 then ''Medium''
                  else ''High'');
         explanation = (if reasons \<noteq> [] then str_join '' '' reasons
                        else ''Levels look stable.'')
     in (score, label, explanation))"

subsection \<open>Numbers of the trend generator\<close>

text \<open>
  The exceptions that the built-in operations used by the program can raise.
\<close>

datatype error = ValueError | OverflowError | IndexError

text \<open>
  Rounding of an exact result to binary64, round-to-nearest, ties to even: 53
  significant bits, exponents from \<open>-1022\<close> to \<open>1023\<close>. \<open>pow2 e\<close> is \<open>2\<^sup>e\<close>,
  \<open>ilog2 x\<close> the exponent \<open>e\<close> with \<open>2\<^sup>e \<le> x < 2\<^sup>e\<^sup>+\<^sup>1\<close> of a positive \<open>x\<close>
  (\<open>bitlen n\<close> is the number of binary digits of \<open>n\<close>; below 1 the exponent is
  read off the reciprocal).
\<close>

definition pow2 :: "int \<Rightarrow> rat" where
  "pow2 e = (if 0 \<le> e then 2 ^ nat e else 1 / 2 ^ nat (- e))"

definition ilog2 :: "rat \<Rightarrow> int" where
  "ilog2 x =
    (if 1 \<le> x then bitlen \<lfloor>x\<rfloor> - 1
     else
       let k = bitlen \<lfloor>1 / x\<rfloor> - 1
       in if x * pow2 k = 1 then - k else - k - 1)"

definition round_half_even :: "rat \<Rightarrow> int" where
  "round_half_even x =
    (let f = \<lfloor>x\<rfloor>;
         r = x - of_int f
     in if r < 1 / 2 then f
        else if 1 / 2 < r then f + 1
        else if even f then f else f + 1)"

definition round_binary64 :: "rat \<Rightarrow> pyfloat" where
  "round_binary64 x =
    (if x = 0 then Finite 0
     else
       let e = max (ilog2 \<bar>x\<bar>) (- 1022);
           u = pow2 (e - 52);
           y = of_int (round_half_even (x / u)) * u
       in if pow2 1024 \<le> \<bar>y\<bar> then (if 0 < x then PosInf else NegInf)
          else Finite y)"

text \<open>
  \<^verbatim>\<open>float(n)\<close> for an integer, as the interpreter applies it to the integer operand
  of \<^verbatim>\<open>float + int\<close>: the nearest double, or OverflowError when there is none.
\<close>

definition float_of_int :: "int \<Rightarrow> error + pyfloat" where
  "float_of_int n =
    (case round_binary64 (of_int n) of
       Finite q \<Rightarrow> Inr (Finite q)
     | _ \<Rightarrow> Inl OverflowError)"

text \<open>Addition of two floats.\<close>

fun float_add :: "pyfloat \<Rightarrow> pyfloat \<Rightarrow> pyfloat" where
  "float_add (Finite a) (Finite b) = round_binary64 (a + b)"
| "float_add NaN y = NaN"
| "float_add x NaN = NaN"
| "float_add PosInf NegInf = NaN"
| "float_add NegInf PosInf = NaN"
| "float_add PosInf y = PosInf"
| "float_add NegInf y = NegInf"
| "float_add (Finite a) y = y"

text \<open>
  The variable \<^verbatim>\<open>current\<close> of \<^verbatim>\<open>generate_trend\<close> holds a float at first and
  an \<^verbatim>\<open>int\<close> whenever the clamp returned one of its literals, so its values are
  tagged with the Python type.
\<close>

datatype pynum = PInt int | PFloat pyfloat

text \<open>
  \<^verbatim>\<open>int(x)\<close>: the identity on an integer, truncation towards zero on a finite
  float, ValueError on NaN and OverflowError on an infinity.
\<close>

fun py_int :: "pynum \<Rightarrow> error + int" where
  "py_int (PInt i) = Inr i"
| "py_int (PFloat (Finite q)) = Inr (if 0 \<le> q then \<lfloor>q\<rfloor> else \<lceil>q\<rceil>)"
| "py_int (PFloat NaN) = Inl ValueError"
| "py_int (PFloat PosInf) = Inl OverflowError"
| "py_int (PFloat NegInf) = Inl OverflowError"

text \<open>\<^verbatim>\<open>x + n\<close> (here \<^verbatim>\<open>current += change\<close>) for an integer \<open>n\<close>.\<close>

fun num_add :: "pynum \<Rightarrow> int \<Rightarrow> error + pynum" where
  "num_add (PInt i) n = Inr (PInt (i + n))"
| "num_add (PFloat x) n =
    (case float_of_int n of
       Inl e \<Rightarrow> Inl e
     | Inr y \<Rightarrow> Inr (PFloat (float_add x y)))"

fun num_lt :: "pynum \<Rightarrow> int \<Rightarrow> bool" where
  "num_lt (PInt i) n = (i < n)"
| "num_lt (PFloat x) n = float_lt x n"

fun num_gt :: "pynum \<Rightarrow> int \<Rightarrow> bool" where
  "num_gt (PInt i) n = (n < i)"
| "num_gt (PFloat x) n = float_gt x n"

text \<open>
  \<^verbatim>\<open>max(60, min(350, current))\<close>. \<^verbatim>\<open>min(a, b)\<close> returns \<open>b\<close> when
  \<^verbatim>\<open>b < a\<close> and \<open>a\<close> otherwise; \<^verbatim>\<open>max(a, b)\<close> returns \<open>b\<close> when
  \<^verbatim>\<open>b > a\<close> and \<open>a\<close> otherwise.
\<close>

definition clamp :: "pynum \<Rightarrow> pynum" where
  "clamp current =
    (let m = (if num_lt current 350 then current else PInt 350)
     in if num_gt m 60 then m else PInt 60)"

subsection \<open>The random source\<close>

text \<open>
  The process-global generator of the \<^verbatim>\<open>random\<close> module is an explicit state: the
  infinite sequence of raw draws still to come. \<^verbatim>\<open>randint(a, b)\<close> consumes one
  draw and maps it onto \<open>a, \<dots>, b\<close> (every value of the range is the image of some
  draw, and nothing else is); it raises ValueError on an empty range.
  \<^verbatim>\<open>choice(seq)\<close> consumes one draw and indexes the sequence with it; it raises
  IndexError on an empty sequence.
\<close>

type_synonym rng = "nat \<Rightarrow> nat"

definition const_rng :: "nat \<Rightarrow> rng" where
  "const_rng r = (\<lambda>_. r)"

definition rng_tail :: "rng \<Rightarrow> rng" where
  "rng_tail rng = (\<lambda>i. rng (Suc i))"

definition randint :: "int \<Rightarrow> int \<Rightarrow> rng \<Rightarrow> error + (int \<times> rng)" where
  "randint a b rng =
    (if b < a then Inl ValueError
     else Inr (a + int (rng 0 mod nat (b - a + 1)), rng_tail rng))"

definition choice :: "'a list \<Rightarrow> rng \<Rightarrow> error + ('a \<times> rng)" where
  "choice seq rng =
    (if seq = [] then Inl IndexError
     else Inr (seq ! (rng 0 mod length seq), rng_tail rng))"

subsection \<open>generate\_trend\<close>

text \<open>
  The body of \<^verbatim>\<open>for _ in range(14)\<close>, run \<open>n\<close> more times: append
  \<^verbatim>\<open>int(current)\<close>, draw the change, add it, clamp.
\<close>

fun trend_loop :: "nat \<Rightarrow> pynum \<Rightarrow> int list \<Rightarrow> rng \<Rightarrow> error + (int list \<times> rng)" where
  "trend_loop 0 current series rng = Inr (series, rng)"
| "trend_loop (Suc n) current series rng =
    (case py_int current of
       Inl e \<Rightarrow> Inl e
     | Inr v \<Rightarrow>
        (case randint (- 15) 15 rng of
           Inl e \<Rightarrow> Inl e
         | Inr (change, rng') \<Rightarrow>
            (case num_add current change of
               Inl e \<Rightarrow> Inl e
             | Inr current' \<Rightarrow>
                trend_loop n (clamp current') (series @ [v]) rng')))"

definition generate_trend :: "pyfloat \<Rightarrow> rng \<Rightarrow> error + (int list \<times> rng)" where
  "generate_trend start_glucose rng = trend_loop 14 (PFloat start_glucose) [] rng"

subsection \<open>scan\_product\<close>

text \<open>An entry of the \<^verbatim>\<open>products\<close> table, and the response model.\<close>

record Product =
  name :: string
  carbs :: int
  risk :: string
  expl :: string

record ScanResponse =
  product_name :: string
  estimated_carbs :: pyfloat
  risk_label :: string
  risk_score :: int
  explanation :: string

definition products :: "Product list" where
  "products =
    [\<lparr>name = ''Apple'', carbs = 25, risk = ''Low'', expl = ''Natural sugars, high fiber.''\<rparr>,
     \<lparr>name = ''Soda Can'', carbs = 40, risk = ''High'',
      expl = ''High glycemic index, liquid sugar.''\<rparr>,
     \<lparr>name = ''Pizza Slice'', carbs = 35, risk = ''Medium'',
      expl = ''Fat/protein delays absorption, but high carb.''\<rparr>,
     \<lparr>name = ''Salad'', carbs = 10, risk = ''Low'', expl = ''Very low impact.''\<rparr>,
     \<lparr>name = ''Donut'', carbs = 45, risk = ''High'', expl = ''Refined carbs and fats.''\<rparr>]"

text \<open>
  The handler of \<^verbatim>\<open>POST /scan\<close>. The uploaded file is a parameter that the body
  never reads. The response model turns the integer \<^verbatim>\<open>carbs\<close> into a float.
\<close>

definition scan_product :: "string \<Rightarrow> rng \<Rightarrow> error + (ScanResponse \<times> rng)" where
  "scan_product file rng =
    (case choice products rng of
       Inl e \<Rightarrow> Inl e
     | Inr (detected, rng1) \<Rightarrow>
        (case (if risk detected = ''High'' then randint 70 95 rng1
               else if risk detected = ''Medium'' then randint 30 69 rng1
               else randint 5 29 rng1) of
           Inl e \<Rightarrow> Inl e
         | Inr (score, rng2) \<Rightarrow>
            Inr (\<lparr>product_name = name detected,
                  estimated_carbs = Finite (of_int (carbs detected)),
                  risk_label = risk detected,
                  risk_score = score,
                  explanation = expl detected\<rparr>, rng2)))"

subsection \<open>The specification's words\<close>

text \<open>
  The definitions of this subsection follow the specification, not the source; the
  theorems compare them with the functions above.

  \<open>float_in x lo hi\<close>: the float lies in the closed interval \<open>[lo, hi]\<close>.
\<close>

fun float_in :: "pyfloat \<Rightarrow> int \<Rightarrow> int \<Rightarrow> bool" where
  "float_in (Finite q) lo hi = (of_int lo \<le> q \<and> q \<le> of_int hi)"
| "float_in PosInf lo hi = False"
| "float_in NegInf lo hi = False"
| "float_in NaN lo hi = False"

text \<open>The additive score, starting at 0, one summand for each rule.\<close>

definition spec_sum :: "PatientData \<Rightarrow> int" where
  "spec_sum d =
     0
     + (if float_gt (glucose d) 180 then 60
        else if float_lt (glucose d) 70 then 50
        else 10)
     + (if float_gt (carbs_grams d) 60 then 20 else 0)
     + (if float_gt (stress_level d) 7 then 15 else 0)
     + (if float_lt (activity_level d) 3 then 10 else 0)
     + (if float_eq (insulin_units d) 0 \<and> float_gt (glucose d) 150 then 10 else 0)"

text \<open>The reasons that triggered, in the order of the rules.\<close>

definition spec_reasons :: "PatientData \<Rightarrow> string list" where
  "spec_reasons d =
     (if float_gt (glucose d) 180 then [''Current glucose is elevated.'']
      else if float_lt (glucose d) 70 then [''Risk of hypoglycemia.'']
      else [])
     @ (if float_gt (carbs_grams d) 60 then [''High carb intake detected.''] else [])
     @ (if float_gt (stress_level d) 7
        then [''High stress levels can spike glucose.''] else [])
     @ (if float_lt (activity_level d) 3
        then [''Low activity increases persistence of high glucose.''] else [])
     @ (if float_eq (insulin_units d) 0 \<and> float_gt (glucose d) 150
        then [''Missed insulin correction?''] else [])"

definition spec_explanation :: "PatientData \<Rightarrow> string" where
  "spec_explanation d =
     (if spec_reasons d = [] then ''Levels look stable.''
      else str_join '' '' (spec_reasons d))"

text \<open>The bucketing of a score: below 30 Low, below 70 Medium, else High.\<close>

definition spec_label :: "int \<Rightarrow> string" where
  "spec_label score =
     (if score < 30 then ''Low'' else if score < 70 then ''Medium'' else ''High'')"

text \<open>
  \<open>floor(current)\<close>, as \<^verbatim>\<open>math.floor\<close> computes it: the greatest integer not above
  the value.
\<close>

fun py_floor :: "pynum \<Rightarrow> error + int" where
  "py_floor (PInt i) = Inr i"
| "py_floor (PFloat (Finite q)) = Inr \<lfloor>q\<rfloor>"
| "py_floor (PFloat NaN) = Inl ValueError"
| "py_floor (PFloat PosInf) = Inl OverflowError"
| "py_floor (PFloat NegInf) = Inl OverflowError"

text \<open>
  The random walk as a sequence: \<open>spec_step rng k\<close> is the step of iteration \<open>k\<close>, an
  integer of \<open>[-15, 15]\<close> read off the \<open>k\<close>-th draw; \<open>spec_add\<close> adds it to
  \<open>current\<close> (a float sum is rounded to the nearest double); \<open>spec_current start rng k\<close>
  is \<open>current\<close> at the beginning of iteration \<open>k\<close>: the start value, then step added
  and clamped, once per iteration. \<open>clamped\<close> says that a value is a number of
  \<open>[60, 350]\<close>. \<open>rng_drop n rng\<close> is the random source after \<open>n\<close> draws.
\<close>

definition spec_step :: "rng \<Rightarrow> nat \<Rightarrow> int" where
  "spec_step rng k = - 15 + int (rng k mod 31)"

fun spec_add :: "pynum \<Rightarrow> int \<Rightarrow> pynum" where
  "spec_add (PInt i) n = PInt (i + n)"
| "spec_add (PFloat x) n = PFloat (float_add x (Finite (of_int n)))"

fun spec_current :: "pynum \<Rightarrow> rng \<Rightarrow> nat \<Rightarrow> pynum" where
  "spec_current start rng 0 = start"
| "spec_current start rng (Suc k) =
     clamp (spec_add (spec_current start rng k) (spec_step rng k))"

fun clamped :: "pynum \<Rightarrow> bool" where
  "clamped (PInt i) = (60 \<le> i \<and> i \<le> 350)"
| "clamped (PFloat (Finite q)) = (60 \<le> q \<and> q \<le> 350)"
| "clamped (PFloat PosInf) = False"
| "clamped (PFloat NegInf) = False"
| "clamped (PFloat NaN) = False"

fun is_finite :: "pynum \<Rightarrow> bool" where
  "is_finite (PInt i) = True"
| "is_finite (PFloat (Finite q)) = True"
| "is_finite (PFloat PosInf) = False"
| "is_finite (PFloat NegInf) = False"
| "is_finite (PFloat NaN) = False"

definition rng_drop :: "nat \<Rightarrow> rng \<Rightarrow> rng" where
  "rng_drop n rng = (\<lambda>i. rng (i + n))"

section \<open>Properties of calculate\_risk\<close>

lemma score_reasons_spec: "score_reasons d = (spec_sum d, spec_reasons d)"
  by (simp add: score_reasons_def spec_sum_def spec_reasons_def)

lemma spec_sum_bounds: "10 \<le> spec_sum d \<and> spec_sum d \<le> 115"
  by (simp add: spec_sum_def)

lemma calculate_risk_spec:
  "calculate_risk d =
     (min (spec_sum d) 100, spec_label (min (spec_sum d) 100), spec_explanation d)"
  using spec_sum_bounds [of d]
  by (auto simp add: calculate_risk_def score_reasons_spec spec_label_def
      spec_explanation_def Let_def)

lemma glucose_otherwise:
  "(\<not> float_gt g 180 \<and> \<not> float_lt g 70) = (float_in g 70 180 \<or> g = NaN)"
  by (cases g) auto

text \<open>The three examples of the specification's test list.\<close>

lemma calculate_risk_example_200:
  "calculate_risk \<lparr>glucose = Finite 200, insulin_units = Finite 0, carbs_grams = Finite 0,
       activity_level = Finite 5, stress_level = Finite 5, mood = ''ok''\<rparr>
     = (70, ''High'', ''Current glucose is elevated. Missed insulin correction?'')"
  by (simp add: calculate_risk_def score_reasons_def)

lemma calculate_risk_example_100:
  "calculate_risk \<lparr>glucose = Finite 100, insulin_units = Finite 0, carbs_grams = Finite 0,
       activity_level = Finite 5, stress_level = Finite 5, mood = ''ok''\<rparr>
     = (10, ''Low'', ''Levels look stable.'')"
  by (simp add: calculate_risk_def score_reasons_def)


text \<open>
  C1, as stated: the returned score is the sum of the contributions. It is not when
  the sum exceeds 100: with glucose 200, no insulin, 100 g of carbohydrates, activity 1
  and stress 9 the sum is 60 + 20 + 15 + 10 + 10 = 115 and the returned score is 100.
  And the third glucose branch is not only the interval \<open>[70, 180]\<close>: a NaN glucose
  fails both comparisons and scores 10.
\<close>

theorem calculate_risk_sum_counterexample:
  "fst (calculate_risk \<lparr>glucose = Finite 200, insulin_units = Finite 0,
          carbs_grams = Finite 100, activity_level = Finite 1, stress_level = Finite 9,
          mood = ''ok''\<rparr>) = 100
   \<and> spec_sum \<lparr>glucose = Finite 200, insulin_units = Finite 0,
          carbs_grams = Finite 100, activity_level = Finite 1, stress_level = Finite 9,
          mood = ''ok''\<rparr> = 115
   \<and> fst (calculate_risk \<lparr>glucose = NaN, insulin_units = Finite 0,
          carbs_grams = Finite 0, activity_level = Finite 5, stress_level = Finite 5,
          mood = ''ok''\<rparr>) = 10
   \<and> \<not> float_in NaN 70 180"
  by (simp add: calculate_risk_def score_reasons_def spec_sum_def)

text \<open>
  C1, amended: for every input, \<open>calculate_risk\<close> returns a triple whose score is
  the sum of the contributions (60 if glucose > 180, 50 if glucose < 70, 10 otherwise;
  20 if carbs > 60; 15 if stress > 7; 10 if activity < 3; 10 if insulin = 0 and
  glucose > 150) capped at 100, and whose explanation is the space-joined reasons in
  the order of the rules, or \<open>Levels look stable.\<close> when none triggered. The
  "otherwise" branch of glucose is taken exactly when glucose is in \<open>[70, 180]\<close> or
  is NaN.
\<close>

theorem calculate_risk_score_explanation:
  "(\<exists>label. calculate_risk d = (min (spec_sum d) 100, label, spec_explanation d))
   \<and> ((\<not> float_gt (glucose d) 180 \<and> \<not> float_lt (glucose d) 70)
        = (float_in (glucose d) 70 180 \<or> glucose d = NaN))"
  by (simp add: calculate_risk_spec glucose_otherwise)

text \<open>
  C2: for every input the returned score lies in \<open>[0, 100]\<close>, and the returned label
  is the bucket of the returned score alone: Low below 30, Medium from 30 to 69, High
  from 70.
\<close>

theorem calculate_risk_clamped_label:
  "0 \<le> fst (calculate_risk d) \<and> fst (calculate_risk d) \<le> 100
   \<and> fst (snd (calculate_risk d)) = spec_label (fst (calculate_risk d))"
  using spec_sum_bounds [of d] by (simp add: calculate_risk_spec)

text \<open>
  C6: whenever glucose > 180, the returned score is at least 60 and the label is
  Medium or High, never Low.
\<close>

theorem calculate_risk_elevated:
  "float_gt (glucose d) 180 \<Longrightarrow>
     60 \<le> fst (calculate_risk d)
     \<and> fst (snd (calculate_risk d)) \<in> {''Medium'', ''High''}
     \<and> fst (snd (calculate_risk d)) \<noteq> ''Low''"
  by (simp add: calculate_risk_spec spec_sum_def spec_label_def)

text \<open>C6 at glucose 200 with the defaults: score 70, label High.\<close>

theorem calculate_risk_elevated_witness:
  "float_gt (Finite 200) 180
   \<and> 60 \<le> fst (calculate_risk \<lparr>glucose = Finite 200, insulin_units = Finite 0,
          carbs_grams = Finite 0, activity_level = Finite 5, stress_level = Finite 5,
          mood = ''ok''\<rparr>)
   \<and> fst (snd (calculate_risk \<lparr>glucose = Finite 200, insulin_units = Finite 0,
          carbs_grams = Finite 0, activity_level = Finite 5, stress_level = Finite 5,
          mood = ''ok''\<rparr>)) = ''High''"
  using calculate_risk_elevated [of "\<lparr>glucose = Finite 200, insulin_units = Finite 0,
          carbs_grams = Finite 0, activity_level = Finite 5, stress_level = Finite 5,
          mood = ''ok''\<rparr>"]
  by (simp add: calculate_risk_example_200)



text \<open>
  C8: two inputs that agree on glucose, insulin\_units, carbs\_grams, activity\_level
  and stress\_level get the same score, label and explanation, whatever their moods.
\<close>

theorem calculate_risk_ignores_mood:
  "glucose d1 = glucose d2 \<Longrightarrow> insulin_units d1 = insulin_units d2 \<Longrightarrow>
   carbs_grams d1 = carbs_grams d2 \<Longrightarrow> activity_level d1 = activity_level d2 \<Longrightarrow>
   stress_level d1 = stress_level d2 \<Longrightarrow> calculate_risk d1 = calculate_risk d2"
  by (simp add: calculate_risk_def score_reasons_def)

text \<open>C8 at two inputs that differ in the mood only.\<close>

theorem calculate_risk_ignores_mood_witness:
  "mood \<lparr>glucose = Finite 190, insulin_units = Finite 2, carbs_grams = Finite 80,
          activity_level = Finite 2, stress_level = Finite 8, mood = ''happy''\<rparr>
     \<noteq> mood \<lparr>glucose = Finite 190, insulin_units = Finite 2, carbs_grams = Finite 80,
          activity_level = Finite 2, stress_level = Finite 8, mood = ''sad''\<rparr>
   \<and> calculate_risk \<lparr>glucose = Finite 190, insulin_units = Finite 2,
          carbs_grams = Finite 80, activity_level = Finite 2, stress_level = Finite 8,
          mood = ''happy''\<rparr>
       = calculate_risk \<lparr>glucose = Finite 190, insulin_units = Finite 2,
          carbs_grams = Finite 80, activity_level = Finite 2, stress_level = Finite 8,
          mood = ''sad''\<rparr>"
  using calculate_risk_ignores_mood
    [of "\<lparr>glucose = Finite 190, insulin_units = Finite 2, carbs_grams = Finite 80,
          activity_level = Finite 2, stress_level = Finite 8, mood = ''happy''\<rparr>"
        "\<lparr>glucose = Finite 190, insulin_units = Finite 2, carbs_grams = Finite 80,
          activity_level = Finite 2, stress_level = Finite 8, mood = ''sad''\<rparr>"]
  by simp



text \<open>
  C10: the score before the clamp is at least 10, so the lower clamp at 0 changes
  nothing; the returned score is at least 10; and the label is Low exactly when the
  returned score is in \<open>[10, 29]\<close>.
\<close>

theorem calculate_risk_at_least_10:
  "10 \<le> fst (score_reasons d)
   \<and> max (fst (score_reasons d)) 0 = fst (score_reasons d)
   \<and> 10 \<le> fst (calculate_risk d)
   \<and> (fst (snd (calculate_risk d)) = ''Low'')
       = (10 \<le> fst (calculate_risk d) \<and> fst (calculate_risk d) \<le> 29)"
  using spec_sum_bounds [of d]
  by (auto simp add: calculate_risk_spec score_reasons_spec spec_label_def)

section \<open>Properties of generate\_trend\<close>

subsection \<open>Evaluating the rounding on numerals\<close>

lemma floor_rat_numeral:
  "\<lfloor>numeral a / numeral b :: rat\<rfloor> = numeral a div numeral b"
  by (metis floor_divide_of_int_eq of_int_numeral)

lemma floor_rat_neg_numeral:
  "\<lfloor>- (numeral a / numeral b) :: rat\<rfloor> = - numeral a div numeral b"
  by (metis divide_minus_left floor_divide_of_int_eq of_int_neg_numeral of_int_numeral)

lemma ceiling_rat_numeral:
  "\<lceil>numeral a / numeral b :: rat\<rceil> = - (- numeral a div numeral b)"
  using ceiling_divide_eq_div [of "numeral a" "numeral b"] by simp

lemma ceiling_rat_neg_numeral:
  "\<lceil>- (numeral a / numeral b) :: rat\<rceil> = - (numeral a div numeral b)"
  using ceiling_divide_eq_div [of "- numeral a" "numeral b"] by simp

lemmas round_eval = round_binary64_def round_half_even_def ilog2_def pow2_def bitlen_def
  compute_floorlog Let_def floor_rat_numeral floor_rat_neg_numeral ceiling_rat_numeral
  ceiling_rat_neg_numeral

subsection \<open>Integers are doubles\<close>

lemma round_half_even_of_int: "round_half_even (of_int k) = k"
  by (simp add: round_half_even_def)

lemma ilog2_of_int: "1 \<le> m \<Longrightarrow> ilog2 (of_int m) = bitlen m - 1"
  by (simp add: ilog2_def)

text \<open>An integer below \<open>2\<^sup>5\<^sup>3\<close> in magnitude is a double: rounding leaves it alone.\<close>

lemma round_binary64_of_int:
  assumes "\<bar>n\<bar> < 2 ^ 53"
  shows "round_binary64 (of_int n) = Finite (of_int n)"
proof (cases "n = 0")
  case True
  then show ?thesis by (simp add: round_binary64_def)
next
  case False
  define m where "m = \<bar>n\<bar>"
  define e where "e = bitlen m - 1"
  define k where "k = nat (52 - e)"
  from False have m_pos: "0 < m" by (simp add: m_def)
  from bitlen_bounds [OF m_pos] have lo: "2 ^ nat e \<le> m" and hi: "m < 2 ^ nat (bitlen m)"
    by (simp_all add: e_def)
  from m_pos have e_nonneg: "0 \<le> e"
    by (simp add: e_def bitlen_alt_def)
  have "(2::int) ^ nat e < 2 ^ 53"
    using lo assms by (simp add: m_def)
  then have "nat e < 53" by (rule power_less_imp_less_exp [rotated]) simp
  with e_nonneg have e_le: "e \<le> 52" by simp
  have abs_eq: "\<bar>rat_of_int n\<bar> = of_int m" by (simp add: m_def)
  have il: "ilog2 \<bar>rat_of_int n\<bar> = e"
    using m_pos by (simp add: abs_eq ilog2_of_int e_def)
  have u: "pow2 (e - 52) = 1 / 2 ^ k"
    using e_le by (auto simp add: pow2_def k_def)
  have quot: "rat_of_int n / (1 / 2 ^ k) = of_int (n * 2 ^ k)" by simp
  have undo: "rat_of_int (n * 2 ^ k) * (1 / 2 ^ k) = of_int n" by simp
  have "rat_of_int m < 2 ^ 53"
    using assms unfolding m_def by (metis of_int_less_numeral_power_cancel_iff)
  also have "\<dots> \<le> 2 ^ 1024" by (rule power_increasing) simp_all
  finally have small: "\<not> pow2 1024 \<le> \<bar>rat_of_int n\<bar>"
    by (simp add: abs_eq pow2_def)
  from e_nonneg have mx: "max e (- 1022) = e" by simp
  show ?thesis
    using False small
    by (simp only: round_binary64_def Let_def il mx u quot round_half_even_of_int undo
        of_int_eq_0_iff if_False)
qed

text \<open>The steps of the walk convert to floats exactly.\<close>

lemma float_of_int_small:
  assumes "- 15 \<le> n" and "n \<le> 15"
  shows "float_of_int n = Inr (Finite (of_int n))"
proof -
  from assms have "\<bar>n\<bar> < 2 ^ 53" by simp
  then show ?thesis by (simp add: float_of_int_def round_binary64_of_int)
qed

subsection \<open>The random source\<close>

lemma rng_tail_const: "rng_tail (const_rng r) = const_rng r"
  by (simp add: rng_tail_def const_rng_def)

lemma rng_drop_tail: "rng_drop n (rng_tail rng) = rng_drop (Suc n) rng"
  by (simp add: rng_drop_def rng_tail_def)

lemma rng_drop_0: "rng_drop 0 rng = rng"
  by (simp add: rng_drop_def)

lemma randint_const:
  "randint a b (const_rng r) =
     (if b < a then Inl ValueError else Inr (a + int (r mod nat (b - a + 1)), const_rng r))"
  by (simp add: randint_def rng_tail_const) (simp add: const_rng_def)

text \<open>Every value of the range is drawn by some source.\<close>

lemma randint_onto:
  assumes "a \<le> n" and "n \<le> b"
  shows "randint a b (const_rng (nat (n - a))) = Inr (n, const_rng (nat (n - a)))"
  using assms by (simp add: randint_const)

lemma randint_step: "randint (- 15) 15 rng = Inr (spec_step rng 0, rng_tail rng)"
  by (simp add: randint_def spec_step_def)

lemma spec_step_range: "- 15 \<le> spec_step rng k \<and> spec_step rng k \<le> 15"
  by (simp add: spec_step_def)

lemma spec_step_tail: "spec_step (rng_tail rng) k = spec_step rng (Suc k)"
  by (simp add: spec_step_def rng_tail_def)

subsection \<open>One iteration\<close>

lemma num_add_small:
  assumes "- 15 \<le> n" and "n \<le> 15"
  shows "num_add c n = Inr (spec_add c n)"
  by (cases c) (simp_all add: float_of_int_small [OF assms])

text \<open>
  The clamp on a finite float: the float itself strictly inside the bounds, the integer
  literal of the bound otherwise.
\<close>

lemma clamp_finite:
  "clamp (PFloat (Finite q)) =
     (if 350 \<le> q then PInt 350 else if q \<le> 60 then PInt 60 else PFloat (Finite q))"
  by (simp add: clamp_def)

lemma clamp_int: "clamp (PInt i) = PInt (max 60 (min 350 i))"
  by (simp add: clamp_def)

lemma clamp_clamped: "clamped (clamp c)"
proof (cases c)
  case (PInt i)
  then show ?thesis by (simp add: clamp_def)
next
  case (PFloat x)
  then show ?thesis by (cases x) (simp_all add: clamp_def)
qed

lemma clamped_is_finite: "clamped c \<Longrightarrow> is_finite c"
  by (induction c rule: clamped.induct) simp_all

lemma clamped_py_int:
  "clamped c \<Longrightarrow> \<exists>v. py_int c = Inr v \<and> py_floor c = Inr v \<and> 60 \<le> v \<and> v \<le> 350"
proof (induction c rule: clamped.induct)
  case (2 q)
  then have "60 \<le> q" and "q \<le> 350" by simp_all
  then have "60 \<le> \<lfloor>q\<rfloor>" and "\<lfloor>q\<rfloor> \<le> 350" by (simp_all add: le_floor_iff floor_le_iff)
  with \<open>60 \<le> q\<close> show ?case by simp
qed simp_all

lemma is_finite_py_int: "is_finite c \<Longrightarrow> \<exists>v. py_int c = Inr v"
  by (induction c rule: is_finite.induct) simp_all

subsection \<open>The loop\<close>

lemma spec_current_shift:
  "spec_current (clamp (spec_add c (spec_step rng 0))) (rng_tail rng) k
     = spec_current c rng (Suc k)"
  by (induction k) (simp_all add: spec_step_tail)

lemma trend_loop_step:
  assumes "py_int c = Inr v"
  shows "trend_loop (Suc n) c series rng =
           trend_loop n (clamp (spec_add c (spec_step rng 0))) (series @ [v]) (rng_tail rng)"
  using assms spec_step_range [of rng 0]
  by (simp add: randint_step num_add_small)

lemma trend_loop_spec:
  "is_finite c \<Longrightarrow>
     \<exists>xs. trend_loop n c series rng = Inr (series @ xs, rng_drop n rng)
          \<and> length xs = n
          \<and> (\<forall>k<n. py_int (spec_current c rng k) = Inr (xs ! k))"
proof (induction n arbitrary: c series rng)
  case 0
  then show ?case by (simp add: rng_drop_0)
next
  case (Suc n)
  from Suc.prems obtain v where v: "py_int c = Inr v"
    using is_finite_py_int by blast
  let ?c = "clamp (spec_add c (spec_step rng 0))"
  have "is_finite ?c" by (rule clamped_is_finite [OF clamp_clamped])
  from Suc.IH [OF this, of "series @ [v]" "rng_tail rng"]
  obtain xs where loop: "trend_loop n ?c (series @ [v]) (rng_tail rng)
        = Inr ((series @ [v]) @ xs, rng_drop n (rng_tail rng))"
    and len: "length xs = n"
    and nth: "\<forall>k<n. py_int (spec_current ?c (rng_tail rng) k) = Inr (xs ! k)"
    by blast
  have "trend_loop (Suc n) c series rng = Inr (series @ (v # xs), rng_drop (Suc n) rng)"
    using loop by (simp only: trend_loop_step [OF v] rng_drop_tail append_assoc append_Cons append_Nil)
  moreover have "length (v # xs) = Suc n" using len by simp
  moreover have "\<forall>k<Suc n. py_int (spec_current c rng k) = Inr ((v # xs) ! k)"
  proof (intro allI impI)
    fix k assume "k < Suc n"
    show "py_int (spec_current c rng k) = Inr ((v # xs) ! k)"
    proof (cases k)
      case 0
      then show ?thesis using v by simp
    next
      case (Suc j)
      with \<open>k < Suc n\<close> have "j < n" by simp
      with nth have "py_int (spec_current ?c (rng_tail rng) j) = Inr (xs ! j)" by blast
      then show ?thesis using Suc by (simp only: spec_current_shift nth_Cons_Suc)
    qed
  qed
  ultimately show ?case by blast
qed

text \<open>Unfolding the loop on a numeral, for runs on concrete inputs.\<close>

lemma trend_loop_numeral:
  "trend_loop (numeral k) current series rng =
    (case py_int current of
       Inl e \<Rightarrow> Inl e
     | Inr v \<Rightarrow>
        (case randint (- 15) 15 rng of
           Inl e \<Rightarrow> Inl e
         | Inr (change, rng') \<Rightarrow>
            (case num_add current change of
               Inl e \<Rightarrow> Inl e
             | Inr current' \<Rightarrow>
                trend_loop (pred_numeral k) (clamp current') (series @ [v]) rng')))"
  by (simp only: numeral_eq_Suc trend_loop.simps)



lemma generate_trend_finite:
  "\<exists>xs. generate_trend (Finite q) rng = Inr (xs, rng_drop 14 rng)
        \<and> length xs = 14
        \<and> (\<forall>k<14. py_int (spec_current (PFloat (Finite q)) rng k) = Inr (xs ! k))"
  using trend_loop_spec [of "PFloat (Finite q)" 14 "[]" rng]
  by (simp add: generate_trend_def)







text \<open>
  C4: for every random source, \<open>generate_trend(100)\<close> returns exactly 14 integers,
  each of them within \<open>[60, 350]\<close>, the first equal to 100.
\<close>

theorem generate_trend_100:
  "\<exists>xs. generate_trend (Finite 100) rng = Inr (xs, rng_drop 14 rng)
        \<and> length xs = 14
        \<and> (\<forall>x\<in>set xs. 60 \<le> x \<and> x \<le> 350)
        \<and> xs ! 0 = 100"
proof -
  let ?cur = "spec_current (PFloat (Finite 100)) rng"
  from generate_trend_finite [of 100 rng] obtain xs
    where run: "generate_trend (Finite 100) rng = Inr (xs, rng_drop 14 rng)"
      and len: "length xs = 14"
      and nth: "\<forall>k<14. py_int (?cur k) = Inr (xs ! k)"
    by blast
  have "(0::nat) < 14" by simp
  with nth have "py_int (?cur 0) = Inr (xs ! 0)" by blast
  then have first: "xs ! 0 = 100" by simp
  have bounds: "60 \<le> xs ! k \<and> xs ! k \<le> 350" if "k < 14" for k
  proof (cases k)
    case 0
    with first show ?thesis by simp
  next
    case (Suc j)
    have "clamped (?cur (Suc j))" by (simp add: clamp_clamped)
    from clamped_py_int [OF this] obtain v
      where "py_int (?cur (Suc j)) = Inr v" and "60 \<le> v" and "v \<le> 350"
      by blast
    moreover from nth that Suc have "py_int (?cur (Suc j)) = Inr (xs ! k)" by blast
    ultimately show ?thesis by simp
  qed
  have "\<forall>x\<in>set xs. 60 \<le> x \<and> x \<le> 350"
    using bounds len by (auto simp add: in_set_conv_nth)
  with run len first show ?thesis by blast
qed

text \<open>The run from 100 when every draw is 3 (every step is -12).\<close>

lemma randint_step_const_3: "randint (- 15) 15 (const_rng 3) = Inr (- 12, const_rng 3)"
  by (simp add: randint_const)

lemma trend_run_100_const_3:
  "generate_trend (Finite 100) (const_rng 3)
     = Inr ([100, 88, 76, 64, 60, 60, 60, 60, 60, 60, 60, 60, 60, 60], const_rng 3)"
  by (simp add: generate_trend_def trend_loop_numeral randint_step_const_3 float_of_int_def
      clamp_def round_eval)

text \<open>C4 at that source: the second element, 88, is in the list and within the bounds.\<close>

theorem generate_trend_100_witness:
  "generate_trend (Finite 100) (const_rng 3)
     = Inr ([100, 88, 76, 64, 60, 60, 60, 60, 60, 60, 60, 60, 60, 60], const_rng 3)
   \<and> (88::int) \<in> set [100, 88, 76, 64, 60, 60, 60, 60, 60, 60, 60, 60, 60, 60]
   \<and> (60::int) \<le> 88 \<and> (88::int) \<le> 350
   \<and> length [100, 88, 76, 64, 60, 60, 60, 60, 60, 60, 60, 60, 60, 60 :: int] = 14"
proof -
  from generate_trend_100 [of "const_rng 3"] obtain xs
    where run: "generate_trend (Finite 100) (const_rng 3) = Inr (xs, rng_drop 14 (const_rng 3))"
      and len: "length xs = 14"
      and all: "\<forall>x\<in>set xs. 60 \<le> x \<and> x \<le> 350"
    by blast
  from run have xs: "xs = [100, 88, 76, 64, 60, 60, 60, 60, 60, 60, 60, 60, 60, 60]"
    by (simp add: trend_run_100_const_3)
  have "(88::int) \<in> set xs" by (simp add: xs)
  with all have "(60::int) \<le> 88 \<and> (88::int) \<le> 350" by blast
  with len show ?thesis by (simp add: xs trend_run_100_const_3)
qed

section \<open>Properties of scan\_product\<close>

lemma rng_tail_tail: "rng_tail (rng_tail rng) = rng_drop 2 rng"
  by (simp add: rng_tail_def rng_drop_def)

lemma randint_range:
  assumes "a \<le> b"
  shows "\<exists>n. randint a b rng = Inr (n, rng_tail rng) \<and> a \<le> n \<and> n \<le> b"
proof -
  from assms have pos: "0 < nat (b - a + 1)" by simp
  have "rng 0 mod nat (b - a + 1) < nat (b - a + 1)"
    using pos by (rule mod_less_divisor)
  then have "int (rng 0 mod nat (b - a + 1)) < b - a + 1"
    using assms by linarith
  with assms show ?thesis by (simp add: randint_def)
qed

lemma choice_products:
  "\<exists>p. choice products rng = Inr (p, rng_tail rng) \<and> p \<in> set products"
proof -
  have ne: "products \<noteq> []" by (simp add: products_def)
  then have "rng 0 mod length products < length products" by simp
  then have "products ! (rng 0 mod length products) \<in> set products" by (rule nth_mem)
  with ne show ?thesis by (simp add: choice_def)
qed

lemma products_cases:
  assumes "p \<in> set products"
  shows "name p \<in> {''Apple'', ''Soda Can'', ''Pizza Slice'', ''Salad'', ''Donut''}
         \<and> risk p \<in> {''Low'', ''Medium'', ''High''}"
  using assms by (auto simp add: products_def)

text \<open>
  C5: for every uploaded file and every random source, the scan handler returns a
  response (after two draws) whose product name is one of the five names of the
  table, and whose score lies in the range of its label: \<open>[70, 95]\<close> for High,
  \<open>[30, 69]\<close> for Medium, \<open>[5, 29]\<close> for Low.
\<close>

theorem scan_product_buckets:
  "\<exists>resp. scan_product file rng = Inr (resp, rng_drop 2 rng)
      \<and> product_name resp \<in> {''Apple'', ''Soda Can'', ''Pizza Slice'', ''Salad'', ''Donut''}
      \<and> (risk_label resp = ''High'' \<and> 70 \<le> risk_score resp \<and> risk_score resp \<le> 95
          \<or> risk_label resp = ''Medium'' \<and> 30 \<le> risk_score resp \<and> risk_score resp \<le> 69
          \<or> risk_label resp = ''Low'' \<and> 5 \<le> risk_score resp \<and> risk_score resp \<le> 29)"
proof -
  from choice_products [of rng] obtain p
    where pick: "choice products rng = Inr (p, rng_tail rng)" and mem: "p \<in> set products"
    by blast
  from products_cases [OF mem]
  have nm: "name p \<in> {''Apple'', ''Soda Can'', ''Pizza Slice'', ''Salad'', ''Donut''}"
    and rk: "risk p \<in> {''Low'', ''Medium'', ''High''}"
    by simp_all
  let ?r1 = "rng_tail rng"
  from randint_range [of 70 95 ?r1] obtain h
    where high: "randint 70 95 ?r1 = Inr (h, rng_tail ?r1)" "70 \<le> h" "h \<le> 95" by auto
  from randint_range [of 30 69 ?r1] obtain m
    where medium: "randint 30 69 ?r1 = Inr (m, rng_tail ?r1)" "30 \<le> m" "m \<le> 69" by auto
  from randint_range [of 5 29 ?r1] obtain l
    where low: "randint 5 29 ?r1 = Inr (l, rng_tail ?r1)" "5 \<le> l" "l \<le> 29" by auto
  from rk consider "risk p = ''High''" | "risk p = ''Medium''" | "risk p = ''Low''" by auto
  then show ?thesis
  proof cases
    case 1
    with pick high nm show ?thesis
      by (simp add: scan_product_def rng_tail_tail)
  next
    case 2
    with pick medium nm show ?thesis
      by (simp add: scan_product_def rng_tail_tail)
  next
    case 3
    with pick low nm show ?thesis
      by (simp add: scan_product_def rng_tail_tail)
  qed
qed

text \<open>A run of the handler: every draw is 7.\<close>

lemma scan_product_const_7:
  "scan_product ''img'' (const_rng 7) =
     Inr (\<lparr>product_name = ''Pizza Slice'', estimated_carbs = Finite 35,
           risk_label = ''Medium'', risk_score = 37,
           explanation = ''Fat/protein delays absorption, but high carb.''\<rparr>, const_rng 7)"
  by (simp add: scan_product_def choice_def products_def randint_const rng_tail_const)
    (simp add: const_rng_def)

end
